theory Spec2Isabelle
  imports Main
begin

section \<open>Paths\<close>

text \<open>
  The source builds every path with the standard library's \<^verbatim>\<open>pathlib.Path\<close>. A path
  object is modelled in its POSIX flavour, as the library keeps it after parsing: the root
  (empty, one slash, or exactly two slashes) and the list of components. Parsing drops
  empty components and single dots; it keeps \<^verbatim>\<open>..\<close>.
\<close>

datatype path = PurePath (root: string) (tail: "string list")

text \<open>\<^verbatim>\<open>posixpath.splitroot\<close>, written with the slices \<^verbatim>\<open>p[:1]\<close>, \<^verbatim>\<open>p[1:2]\<close>, \<^verbatim>\<open>p[2:3]\<close>
  of the library.\<close>

definition splitroot :: "string \<Rightarrow> string \<times> string" where
  "splitroot p =
     (if take 1 p \<noteq> ''/'' then ([], p)
      else if take 1 (drop 1 p) \<noteq> ''/'' \<or> take 1 (drop 2 p) = ''/'' then (''/'', drop 1 p)
      else (''//'', drop 2 p))"

text \<open>\<^verbatim>\<open>s.split('/')\<close>: the pieces between slashes, empty pieces included.\<close>

fun split_sep :: "string \<Rightarrow> string list" where
  "split_sep [] = [[]]"
| "split_sep (c # cs) =
     (if c = CHR ''/'' then [] # split_sep cs
      else (case split_sep cs of [] \<Rightarrow> [[c]] | w # ws \<Rightarrow> (c # w) # ws))"

text \<open>\<^verbatim>\<open>'/'.join(xs)\<close>.\<close>

fun join_sep :: "string list \<Rightarrow> string" where
  "join_sep [] = []"
| "join_sep [x] = x"
| "join_sep (x # y # ys) = x @ ''/'' @ join_sep (y # ys)"

text \<open>\<^verbatim>\<open>Path(s)\<close> for a string \<open>s\<close>.\<close>

definition parse_path :: "string \<Rightarrow> path" where
  "parse_path s =
     (if s = [] then PurePath [] []
      else (case splitroot s of
              (r, rel) \<Rightarrow> PurePath r (filter (\<lambda>x. x \<noteq> [] \<and> x \<noteq> ''.'') (split_sep rel))))"

text \<open>\<^verbatim>\<open>str(p)\<close> for a path \<open>p\<close>: root and components joined, or a dot when that is empty.\<close>

definition str_path :: "path \<Rightarrow> string" where
  "str_path p = (let s = root p @ join_sep (tail p) in if s = [] then ''.'' else s)"

text \<open>\<^verbatim>\<open>p / name\<close>: an absolute right operand replaces the left one, a relative one
  appends its components.\<close>

definition truediv :: "path \<Rightarrow> string \<Rightarrow> path" where
  "truediv p name =
     (if take 1 name = ''/'' then parse_path name
      else PurePath (root p) (tail p @ tail (parse_path name)))"

text \<open>\<^verbatim>\<open>p.parent\<close>: the path without its last component; a path without components is
  its own parent.\<close>

definition parent :: "path \<Rightarrow> path" where
  "parent p = (if tail p = [] then p else PurePath (root p) (butlast (tail p)))"

text \<open>An argument typed \<^verbatim>\<open>Union[str, Path]\<close>.\<close>

datatype path_like = Str string | PathObj path

fun str_of :: "path_like \<Rightarrow> string" where
  "str_of (Str s) = s"
| "str_of (PathObj p) = str_path p"

fun Path :: "path_like \<Rightarrow> path" where
  "Path (Str s) = parse_path s"
| "Path (PathObj p) = p"

text \<open>The paths that \<^verbatim>\<open>pathlib\<close> can hold: no other value of type \<^typ>\<open>path\<close> is the
  parse of a string.\<close>

definition wf_path :: "path \<Rightarrow> bool" where
  "wf_path p \<longleftrightarrow>
     (root p = [] \<or> root p = ''/'' \<or> root p = ''//'') \<and>
     list_all (\<lambda>x. x \<noteq> [] \<and> x \<noteq> ''.'' \<and> CHR ''/'' \<notin> set x) (tail p)"

text \<open>The state of the file system that \<^verbatim>\<open>Path.exists\<close> reads: which paths exist.\<close>

type_synonym file_system = "path \<Rightarrow> bool"

section \<open>The observer's configuration\<close>

text \<open>
  \<^verbatim>\<open>str.strip()\<close>: white space is removed at both ends. A character stands for the code
  point of its number, from 0 to 255; the white space of Python's \<^verbatim>\<open>str.isspace\<close> in that
  range is the ASCII white space, the four separators 28 to 31, the next-line control 133
  and the no-break space 160.
\<close>

definition isspace :: "char \<Rightarrow> bool" where
  "isspace c \<longleftrightarrow>
     of_char c \<in> {9, 10, 11, 12, 13, 28, 29, 30, 31, 32, 133, 160 :: nat}"

definition strip :: "string \<Rightarrow> string" where
  "strip s = rev (dropWhile isspace (rev (dropWhile isspace s)))"

record FileSystemObserverConfiguration =
  directories_to_observe :: "path list"
  include_patterns :: "string list"
  exclude_patterns :: "string list"
  processing_lock_file :: "string option"

text \<open>The first argument of the constructor is one string or path, or a sequence of
  them.\<close>

datatype directories_arg = One path_like | Several "path_like list"

definition FileSystemObserverConfiguration_init ::
  "directories_arg \<Rightarrow> string list \<Rightarrow> string list \<Rightarrow> string option
     \<Rightarrow> FileSystemObserverConfiguration" where
  "FileSystemObserverConfiguration_init dirs incl excl lock_file =
     (let directories = (case dirs of One d \<Rightarrow> [d] | Several ds \<Rightarrow> ds)
      in \<lparr> directories_to_observe = map (\<lambda>directory. Path (Str (str_of directory))) directories,
           include_patterns = map strip incl,
           exclude_patterns = map strip excl,
           processing_lock_file = lock_file \<rparr>)"

section \<open>The observer\<close>

text \<open>The fields \<open>observing\<close> and \<open>directories\<close> are the attributes \<^verbatim>\<open>_observing\<close> and
  \<^verbatim>\<open>_directories\<close> of the class.\<close>

record FileSystemObserver =
  config :: FileSystemObserverConfiguration
  observing :: bool
  directories :: "path list"

definition FileSystemObserver_init :: "FileSystemObserverConfiguration \<Rightarrow> FileSystemObserver" where
  "FileSystemObserver_init cfg =
     \<lparr> config = cfg, observing = False, directories = directories_to_observe cfg \<rparr>"

text \<open>Python's \<^verbatim>\<open>any\<close> over the generated booleans: it stops at the first true one.\<close>

fun any_py :: "bool list \<Rightarrow> bool" where
  "any_py [] = False"
| "any_py (b # bs) = (if b then True else any_py bs)"

text \<open>
  \<^verbatim>\<open>is_lock_file_present\<close> reads the file system once per watched directory; \<open>fs\<close> is
  the state it reads. The guard \<^verbatim>\<open>if not self.config.processing_lock_file\<close> is Python's
  truth test: it holds for \<^verbatim>\<open>None\<close> and for the empty string.
\<close>

definition is_lock_file_present :: "file_system \<Rightarrow> FileSystemObserver \<Rightarrow> bool" where
  "is_lock_file_present fs self =
     (case processing_lock_file (config self) of
        None \<Rightarrow> False
      | Some name \<Rightarrow>
          if name = [] then False
          else any_py (map (\<lambda>directory. fs (truediv directory name)) (directories self)))"

definition stop :: "FileSystemObserver \<Rightarrow> FileSystemObserver" where
  "stop self = self\<lparr> observing := False \<rparr>"

section \<open>The change processor\<close>

text \<open>The change kinds of the watching library, and one event: a kind and the path as a
  string.\<close>

datatype Change = added | modified | deleted

type_synonym file_change = "Change \<times> string"

text \<open>
  The responder is a collaborator of the caller's: an object of some type \<open>'r\<close> with the
  two methods of the protocol. The handler returns the responder as it leaves it, or the
  exception it raises (\<open>Inl\<close>).
\<close>

record ('r, 'x) FileSystemChangeResponder =
  should_process_change :: "'r \<Rightarrow> string \<Rightarrow> bool"
  handle_directory_change :: "'r \<Rightarrow> file_change set \<Rightarrow> 'x + 'r"

record ('r, 'x) FileSystemChangeProcessor =
  file_system_change_responder :: "('r, 'x) FileSystemChangeResponder"
  observer :: FileSystemObserver

definition FileSystemChangeProcessor_init ::
  "FileSystemObserverConfiguration \<Rightarrow> ('r, 'x) FileSystemChangeResponder
     \<Rightarrow> ('r, 'x) FileSystemChangeProcessor" where
  "FileSystemChangeProcessor_init observer_configuration responder =
     \<lparr> file_system_change_responder = responder,
       observer = FileSystemObserver_init observer_configuration \<rparr>"

text \<open>
  The set comprehension of \<^verbatim>\<open>process_changes\<close>. Its third condition calls
  \<^verbatim>\<open>is_lock_file_present\<close> anew for each event, so the file system is given per event:
  \<open>fs (change, path)\<close> is its state when that event is tested. The second condition
  compares the event's path string with the configured value, which may be \<^verbatim>\<open>None\<close>.
\<close>

definition changes_to_process ::
  "('r, 'x) FileSystemChangeProcessor \<Rightarrow> 'r \<Rightarrow> (file_change \<Rightarrow> file_system)
     \<Rightarrow> file_change set \<Rightarrow> file_change set" where
  "changes_to_process self r fs changes =
     {(change, path). (change, path) \<in> changes
        \<and> should_process_change (file_system_change_responder self) r path
        \<and> Some path \<noteq> processing_lock_file (config (observer self))
        \<and> \<not> is_lock_file_present (fs (change, path)) (observer self)}"

text \<open>
  The body of the loop for one batch: the handler is called when the set is not empty.
  The result is the list of the calls made to the handler, each by the set it receives,
  and the responder as the batch leaves it or the exception the handler raises.
\<close>

definition process_batch ::
  "('r, 'x) FileSystemChangeProcessor \<Rightarrow> 'r \<Rightarrow> (file_change \<Rightarrow> file_system)
     \<Rightarrow> file_change set \<Rightarrow> file_change set list \<times> ('x + 'r)" where
  "process_batch self r fs changes =
     (let cs = changes_to_process self r fs changes
      in if cs \<noteq> {}
         then ([cs], handle_directory_change (file_system_change_responder self) r cs)
         else ([], Inr r))"

text \<open>
  The loop over the batches the observer yields until its sequence ends, each with the
  file system states met while it is filtered. An exception of the handler ends the loop.
\<close>

fun process_changes ::
  "('r, 'x) FileSystemChangeProcessor \<Rightarrow> 'r
     \<Rightarrow> ((file_change \<Rightarrow> file_system) \<times> file_change set) list
     \<Rightarrow> file_change set list \<times> ('x + 'r)" where
  "process_changes self r [] = ([], Inr r)"
| "process_changes self r ((fs, changes) # rest) =
     (case process_batch self r fs changes of
        (calls, Inl e) \<Rightarrow> (calls, Inl e)
      | (calls, Inr r') \<Rightarrow>
          (case process_changes self r' rest of (later, outcome) \<Rightarrow> (calls @ later, outcome)))"

text \<open>
  The paths of the lock file itself, as the watching library reports them: the text of
  the configured name joined to each watched directory, which is the path
  \<^verbatim>\<open>is_lock_file_present\<close> tests. Without a configured name there is none.
\<close>

definition lock_file_paths :: "FileSystemObserver \<Rightarrow> string set" where
  "lock_file_paths self =
     (case processing_lock_file (config self) of
        None \<Rightarrow> {}
      | Some name \<Rightarrow>
          if name = [] then {}
          else set (map (\<lambda>directory. str_path (truediv directory name)) (directories self)))"

text \<open>
  The set of events the specification calls retained, in its words and not the code's:
  the event passes the responder's predicate, its path is not the lock file's path
  itself, and no lock file is present when it is tested.
\<close>

definition retained ::
  "('r, 'x) FileSystemChangeProcessor \<Rightarrow> 'r \<Rightarrow> (file_change \<Rightarrow> file_system)
     \<Rightarrow> file_change set \<Rightarrow> file_change set" where
  "retained self r fs changes =
     {e \<in> changes.
        should_process_change (file_system_change_responder self) r (snd e)
        \<and> snd e \<notin> lock_file_paths (observer self)
        \<and> \<not> is_lock_file_present (fs e) (observer self)}"

section \<open>The registry\<close>

text \<open>The exception of a failed lookup, with the key it was raised for.\<close>

datatype lookup_error = KeyError string

text \<open>An argument typed \<^verbatim>\<open>Union[str, uuid.UUID]\<close>; a UUID is held by its text.\<close>

datatype id_arg = IdStr string | UUID string

fun str_identifier :: "id_arg \<Rightarrow> string" where
  "str_identifier (IdStr s) = s"
| "str_identifier (UUID u) = u"

text \<open>The two dictionaries of the class, \<^verbatim>\<open>_data\<close> and \<^verbatim>\<open>_aliases\<close>. The objects stored
  are of any type \<open>'a\<close>.\<close>

record 'a Registry =
  data :: "string \<rightharpoonup> 'a"
  aliases :: "string \<rightharpoonup> string"

text \<open>
  \<^verbatim>\<open>register_data\<close>: \<open>uuid4\<close> is the text of the identifier that \<^verbatim>\<open>uuid.uuid4()\<close>
  draws in this call. The test \<^verbatim>\<open>if alias\<close> fails for \<^verbatim>\<open>None\<close> and for the empty
  string. The lines written to the log are left out.
\<close>

definition register_data ::
  "string \<Rightarrow> 'a Registry \<Rightarrow> 'a \<Rightarrow> string option \<Rightarrow> string \<times> 'a Registry" where
  "register_data uuid4 cls d alias =
     (let data_id = uuid4;
          cls = cls\<lparr> data := (data cls)(data_id \<mapsto> d) \<rparr>;
          cls = (case alias of
                   None \<Rightarrow> cls
                 | Some a \<Rightarrow> if a \<noteq> [] then cls\<lparr> aliases := (aliases cls)(a \<mapsto> data_id) \<rparr>
                             else cls)
      in (data_id, cls))"

text \<open>\<^verbatim>\<open>get_data\<close> returns the object or the \<^verbatim>\<open>KeyError\<close> of the last subscript, and the
  registry as it leaves it.\<close>

definition get_data ::
  "'a Registry \<Rightarrow> id_arg \<Rightarrow> (lookup_error + 'a) \<times> 'a Registry" where
  "get_data cls ident =
     (let data_id = str_identifier ident;
          data_id = (case aliases cls data_id of Some i \<Rightarrow> i | None \<Rightarrow> data_id)
      in case data cls data_id of
           None \<Rightarrow> (Inl (KeyError data_id), cls)
         | Some d \<Rightarrow> (Inr d, cls))"

definition clear :: "'a Registry \<Rightarrow> 'a Registry" where
  "clear cls = cls\<lparr> data := Map.empty, aliases := Map.empty \<rparr>"

section \<open>Copying a file\<close>

text \<open>
  The exceptions that reach the handler of \<^verbatim>\<open>copy_file\<close>: the two it raises itself and
  those of the library's calls, all of the family of \<^verbatim>\<open>OSError\<close>. Each carries the
  text that \<^verbatim>\<open>str(e)\<close> gives for it.
\<close>

datatype os_error = FileNotFoundError string | FileExistsError string | OSError string

fun str_error :: "os_error \<Rightarrow> string" where
  "str_error (FileNotFoundError m) = m"
| "str_error (FileExistsError m) = m"
| "str_error (OSError m) = m"

text \<open>
  \<^verbatim>\<open>copy_file\<close> calls three operations of the standard library on the file system:
  \<^verbatim>\<open>Path.exists\<close>, \<^verbatim>\<open>Path.mkdir(parents=True, exist_ok=True)\<close> and \<^verbatim>\<open>shutil.copy2\<close>. They are
  parameters of the model, over a type \<open>'w\<close> of file system states. The two that write
  return the exception they raise, if any, and the state they leave.
\<close>

record 'w os_calls =
  path_exists :: "'w \<Rightarrow> path \<Rightarrow> bool"
  mkdir_parents :: "'w \<Rightarrow> path \<Rightarrow> os_error option \<times> 'w"
  shutil_copy2 :: "'w \<Rightarrow> path \<Rightarrow> path \<Rightarrow> os_error option \<times> 'w"

text \<open>The statements inside \<^verbatim>\<open>try\<close>, after both arguments have become paths.\<close>

definition copy_file_try ::
  "'w os_calls \<Rightarrow> 'w \<Rightarrow> path \<Rightarrow> path \<Rightarrow> bool \<Rightarrow> os_error option \<times> 'w" where
  "copy_file_try os w source_path destination_path overwrite =
     (if \<not> path_exists os w source_path then
        (Some (FileNotFoundError (''Source file does not exist: '' @ str_path source_path)), w)
      else if path_exists os w destination_path \<and> \<not> overwrite then
        (Some (FileExistsError
           (''Destination file already exists: '' @ str_path destination_path)), w)
      else (case mkdir_parents os w (parent destination_path) of
              (Some e, w') \<Rightarrow> (Some e, w')
            | (None, w') \<Rightarrow> shutil_copy2 os w' source_path destination_path))"

text \<open>
  The whole function: the handler of \<^verbatim>\<open>except Exception\<close> writes one line to the error
  log and raises the exception again. The result is the exception that reaches the
  caller, if any, the file system, and the lines logged.
\<close>

definition copy_file ::
  "'w os_calls \<Rightarrow> 'w \<Rightarrow> path_like \<Rightarrow> path_like \<Rightarrow> bool
     \<Rightarrow> os_error option \<times> 'w \<times> string list" where
  "copy_file os w source_path destination_path overwrite =
     (let source_path = Path source_path;
          destination_path = Path destination_path
      in case copy_file_try os w source_path destination_path overwrite of
           (Some e, w') \<Rightarrow>
             (Some e, w',
              [''Error copying file from '' @ str_path source_path @ '' to ''
                 @ str_path destination_path @ '': '' @ str_error e])
         | (None, w') \<Rightarrow> (None, w', []))"

section \<open>Sample objects\<close>

text \<open>A path argument whose path object, if it is one, is a path \<^verbatim>\<open>pathlib\<close> can hold.\<close>

definition wf_path_like :: "path_like \<Rightarrow> bool" where
  "wf_path_like d = (case d of Str s \<Rightarrow> True | PathObj p \<Rightarrow> wf_path p)"

text \<open>A responder that accepts every path and keeps the sets its handler receives, in
  the order of the calls.\<close>

definition recording_responder :: "(file_change set list, unit) FileSystemChangeResponder" where
  "recording_responder =
     \<lparr> should_process_change = (\<lambda>r event_path. True),
       handle_directory_change = (\<lambda>r changes. Inr (r @ [changes])) \<rparr>"

text \<open>A processor that watches \<^verbatim>\<open>/tmp/proj\<close> with the lock file name \<^verbatim>\<open>LOCK\<close>.\<close>

definition proj_processor :: "(file_change set list, unit) FileSystemChangeProcessor" where
  "proj_processor =
     FileSystemChangeProcessor_init
       (FileSystemObserverConfiguration_init (One (Str ''/tmp/proj'')) [] [] (Some ''LOCK''))
       recording_responder"

text \<open>A registry with nothing in it.\<close>

definition empty_registry :: "nat Registry" where
  "empty_registry = \<lparr> data = Map.empty, aliases = Map.empty \<rparr>"

text \<open>
  A small file system for the examples: a map from the paths of its files to their
  contents. Making a directory fails where a file stands and changes nothing otherwise;
  copying fails when the source is not a file.
\<close>

definition sample_os :: "(path \<rightharpoonup> string) os_calls" where
  "sample_os =
     \<lparr> path_exists = (\<lambda>w p. w p \<noteq> None),
       mkdir_parents = (\<lambda>w p. if w p \<noteq> None then (Some (FileExistsError ''File exists''), w)
                              else (None, w)),
       shutil_copy2 = (\<lambda>w s t. case w s of
                         None \<Rightarrow> (Some (OSError ''no such file''), w)
                       | Some c \<Rightarrow> (None, w(t \<mapsto> c))) \<rparr>"

section \<open>Facts about paths\<close>

lemma split_sep_no_slash: "CHR ''/'' \<notin> set x \<Longrightarrow> split_sep x = [x]"
  by (induction x) auto

lemma split_sep_append:
  "CHR ''/'' \<notin> set x \<Longrightarrow> split_sep (x @ CHR ''/'' # rest) = x # split_sep rest"
  by (induction x) auto

lemma split_sep_join_sep:
  "xs \<noteq> [] \<Longrightarrow> list_all (\<lambda>x. CHR ''/'' \<notin> set x) xs \<Longrightarrow> split_sep (join_sep xs) = xs"
proof (induction xs rule: join_sep.induct)
  case 1
  then show ?case by simp
next
  case (2 x)
  then show ?case by (simp add: split_sep_no_slash)
next
  case (3 x y ys)
  then show ?case by (simp add: split_sep_append)
qed

lemma join_sep_first:
  "xs \<noteq> [] \<Longrightarrow> list_all (\<lambda>x. x \<noteq> [] \<and> CHR ''/'' \<notin> set x) xs \<Longrightarrow>
     \<exists>c cs. join_sep xs = c # cs \<and> c \<noteq> CHR ''/''"
  by (induction xs rule: join_sep.induct) (auto simp: neq_Nil_conv)

lemma components_of_join_sep:
  assumes "list_all (\<lambda>x. x \<noteq> [] \<and> x \<noteq> ''.'' \<and> CHR ''/'' \<notin> set x) xs"
  shows "filter (\<lambda>x. x \<noteq> [] \<and> x \<noteq> ''.'') (split_sep (join_sep xs)) = xs"
proof (cases "xs = []")
  case True
  then show ?thesis by simp
next
  case False
  from assms have "list_all (\<lambda>x. CHR ''/'' \<notin> set x) xs"
    by (simp add: list_all_iff)
  with False have "split_sep (join_sep xs) = xs"
    by (rule split_sep_join_sep)
  moreover from assms have "filter (\<lambda>x. x \<noteq> [] \<and> x \<noteq> ''.'') xs = xs"
    by (simp add: list_all_iff)
  ultimately show ?thesis by simp
qed

text \<open>A path that \<^verbatim>\<open>pathlib\<close> can hold is the parse of its own text.\<close>

lemma parse_path_str_path:
  assumes "wf_path p"
  shows "parse_path (str_path p) = p"
proof (cases p)
  case (PurePath r xs)
  with assms have r: "r = [] \<or> r = ''/'' \<or> r = ''//''"
    and xs: "list_all (\<lambda>x. x \<noteq> [] \<and> x \<noteq> ''.'' \<and> CHR ''/'' \<notin> set x) xs"
    by (simp_all add: wf_path_def)
  note rel = components_of_join_sep [OF xs]
  show ?thesis
  proof (cases "xs = []")
    case True
    with r PurePath show ?thesis
      by (auto simp: str_path_def parse_path_def splitroot_def)
  next
    case False
    from xs have "list_all (\<lambda>x. x \<noteq> [] \<and> CHR ''/'' \<notin> set x) xs"
      by (simp add: list_all_iff)
    with False obtain c cs where j: "join_sep xs = c # cs" and c: "c \<noteq> CHR ''/''"
      using join_sep_first by blast
    from r show ?thesis
    proof (elim disjE)
      assume "r = []"
      with PurePath j c rel show ?thesis
        by (simp add: str_path_def parse_path_def splitroot_def)
    next
      assume "r = ''/''"
      with PurePath j c rel show ?thesis
        by (simp add: str_path_def parse_path_def splitroot_def)
    next
      assume "r = ''//''"
      with PurePath j c rel show ?thesis
        by (simp add: str_path_def parse_path_def splitroot_def)
    qed
  qed
qed

lemma split_sep_pieces: "\<forall>x \<in> set (split_sep s). CHR ''/'' \<notin> set x"
  by (induction s) (auto split: list.splits)

text \<open>Every parse of a string is such a path.\<close>

lemma wf_parse_path: "wf_path (parse_path s)"
  using split_sep_pieces
  by (auto simp: wf_path_def parse_path_def splitroot_def list_all_iff
      split: prod.splits if_splits)

text \<open>The two operations on paths the source uses keep them so.\<close>

lemma wf_truediv: "wf_path p \<Longrightarrow> wf_path (truediv p name)"
  using wf_parse_path [of name]
  by (auto simp: truediv_def wf_path_def)

lemma wf_parent: "wf_path p \<Longrightarrow> wf_path (parent p)"
  by (auto simp: parent_def wf_path_def list_all_iff dest: in_set_butlastD)

lemma Path_str_of: "wf_path_like d \<Longrightarrow> parse_path (str_of d) = Path d"
  by (cases d) (simp_all add: wf_path_like_def parse_path_str_path)

section \<open>Facts about the sample objects\<close>

lemma any_py_iff: "any_py bs \<longleftrightarrow> True \<in> set bs"
  by (induction bs) auto

lemma any_py_map: "any_py (map f xs) \<longleftrightarrow> (\<exists>x \<in> set xs. f x)"
  by (auto simp: any_py_iff)

lemma process_batch_calls_nonempty: "{} \<notin> set (fst (process_batch self r fs changes))"
  by (simp add: process_batch_def Let_def)

lemma process_changes_calls_nonempty: "{} \<notin> set (fst (process_changes self r batches))"
proof (induction batches arbitrary: r)
  case Nil
  show ?case by simp
next
  case (Cons b batches)
  obtain fs changes where b: "b = (fs, changes)"
    by (cases b)
  obtain calls outcome where pb: "process_batch self r fs changes = (calls, outcome)"
    by (cases "process_batch self r fs changes")
  have calls: "{} \<notin> set calls"
    using process_batch_calls_nonempty [of self r fs changes] pb by simp
  show ?case
  proof (cases outcome)
    case (Inl e)
    with b pb calls show ?thesis by simp
  next
    case (Inr r')
    obtain later out where pc: "process_changes self r' batches = (later, out)"
      by (cases "process_changes self r' batches")
    have "{} \<notin> set later"
      using Cons.IH [of r'] pc by simp
    with b pb calls Inr pc show ?thesis by simp
  qed
qed

lemma proj_directories:
  "directories (observer proj_processor) = [PurePath ''/'' [''tmp'', ''proj'']]"
  by (simp add: proj_processor_def FileSystemChangeProcessor_init_def
      FileSystemObserver_init_def FileSystemObserverConfiguration_init_def
      parse_path_def splitroot_def)

lemma proj_lock_file: "processing_lock_file (config (observer proj_processor)) = Some ''LOCK''"
  by (simp add: proj_processor_def FileSystemChangeProcessor_init_def
      FileSystemObserver_init_def FileSystemObserverConfiguration_init_def)

lemma proj_should_process:
  "should_process_change (file_system_change_responder proj_processor) r p"
  by (simp add: proj_processor_def FileSystemChangeProcessor_init_def recording_responder_def)

lemma proj_handle:
  "handle_directory_change (file_system_change_responder proj_processor) r cs = Inr (r @ [cs])"
  by (simp add: proj_processor_def FileSystemChangeProcessor_init_def recording_responder_def)

lemma proj_lock_path:
  "truediv (PurePath ''/'' [''tmp'', ''proj'']) ''LOCK'' = PurePath ''/'' [''tmp'', ''proj'', ''LOCK'']"
  by (simp add: truediv_def parse_path_def splitroot_def)

lemma proj_lock_absent: "\<not> is_lock_file_present (\<lambda>p. False) (observer proj_processor)"
  by (simp add: is_lock_file_present_def proj_lock_file proj_directories)

lemma proj_lock_present:
  "is_lock_file_present (\<lambda>p. p = PurePath ''/'' [''tmp'', ''proj'', ''LOCK''])
     (observer proj_processor)"
  by (simp add: is_lock_file_present_def proj_lock_file proj_directories proj_lock_path)

lemma proj_lock_file_paths: "lock_file_paths (observer proj_processor) = {''/tmp/proj/LOCK''}"
  by (simp add: lock_file_paths_def proj_lock_file proj_directories proj_lock_path str_path_def)

lemma one_widget:
  "register_data ''id-1'' empty_registry 7 (Some ''Widget'')
     = (''id-1'', \<lparr> data = [''id-1'' \<mapsto> 7], aliases = [''Widget'' \<mapsto> ''id-1''] \<rparr>)"
  by (simp add: register_data_def empty_registry_def Let_def)

lemma one_plain:
  "register_data ''id-1'' empty_registry 7 None
     = (''id-1'', \<lparr> data = [''id-1'' \<mapsto> 7], aliases = Map.empty \<rparr>)"
  by (simp add: register_data_def empty_registry_def Let_def)

lemma two_widgets:
  "register_data ''id-2'' \<lparr> data = [''id-1'' \<mapsto> 7], aliases = [''Widget'' \<mapsto> ''id-1''] \<rparr>
       8 (Some ''Widget'')
     = (''id-2'', \<lparr> data = [''id-1'' \<mapsto> 7, ''id-2'' \<mapsto> 8],
                    aliases = [''Widget'' \<mapsto> ''id-2''] \<rparr>)"
  by (simp add: register_data_def Let_def)

lemma alias_over_id:
  "register_data ''id-2'' \<lparr> data = [''id-1'' \<mapsto> 7], aliases = Map.empty \<rparr> 8 (Some ''id-1'')
     = (''id-2'', \<lparr> data = [''id-1'' \<mapsto> 7, ''id-2'' \<mapsto> 8],
                    aliases = [''id-1'' \<mapsto> ''id-2''] \<rparr>)"
  by (simp add: register_data_def Let_def)

lemma wf_tmp_proj: "wf_path (PurePath ''/'' [''tmp'', ''proj''])"
  by (simp add: wf_path_def)

lemma sample_paths:
  "parse_path ''/a'' = PurePath ''/'' [''a'']"
  "parse_path ''/a/b'' = PurePath ''/'' [''a'', ''b'']"
  "parse_path ''/dir/b'' = PurePath ''/'' [''dir'', ''b'']"
  "parse_path ''/c'' = PurePath ''/'' [''c'']"
  by (simp_all add: parse_path_def splitroot_def)

section \<open>The change processor and the lock file\<close>

text \<open>
  Claim C1. Every event whose path is the lock file's path inside a watched directory is
  to be left out of the set passed to the handler, also when the responder accepts that
  path. The comprehension compares the event's path, which the watching library gives in
  full, with the configured lock file name alone, so the comparison does not recognise
  that path. Here the processor watches \<^verbatim>\<open>/tmp/proj\<close> with the lock file name \<^verbatim>\<open>LOCK\<close>,
  no lock file is present, and the responder accepts every path: the path
  \<^verbatim>\<open>/tmp/proj/LOCK\<close> is the one \<^verbatim>\<open>is_lock_file_present\<close> would test, and the handler
  receives both events of the batch, the lock file's among them.
\<close>

theorem lock_file_event_reaches_handler:
  "str_path (truediv (PurePath ''/'' [''tmp'', ''proj'']) ''LOCK'') = ''/tmp/proj/LOCK'' \<and>
   \<not> is_lock_file_present (\<lambda>p. False) (observer proj_processor) \<and>
   process_batch proj_processor [] (\<lambda>e p. False)
       {(modified, ''/tmp/proj/a.txt''), (modified, ''/tmp/proj/LOCK'')}
     = ([{(modified, ''/tmp/proj/a.txt''), (modified, ''/tmp/proj/LOCK'')}],
        Inr [{(modified, ''/tmp/proj/a.txt''), (modified, ''/tmp/proj/LOCK'')}])"
proof -
  have a: "str_path (truediv (PurePath ''/'' [''tmp'', ''proj'']) ''LOCK'') = ''/tmp/proj/LOCK''"
    by (simp add: proj_lock_path str_path_def)
  have c: "changes_to_process proj_processor [] (\<lambda>e p. False)
       {(modified, ''/tmp/proj/a.txt''), (modified, ''/tmp/proj/LOCK'')}
       = {(modified, ''/tmp/proj/a.txt''), (modified, ''/tmp/proj/LOCK'')}"
    using proj_lock_absent
    by (auto simp: changes_to_process_def proj_lock_file proj_should_process)
  show ?thesis
    using a proj_lock_absent c by (simp add: process_batch_def Let_def proj_handle)
qed

text \<open>
  Claim C2. If \<^verbatim>\<open>is_lock_file_present\<close> returns true whenever it is asked while a batch
  is filtered, then no event of the batch is retained, whatever the responder's predicate
  says, and the handler is not called: the batch makes no call and leaves the responder
  as it was.
\<close>

theorem lock_file_present_drops_batch:
  assumes "\<forall>e \<in> changes. is_lock_file_present (fs e) (observer self)"
  shows "changes_to_process self r fs changes = {} \<and>
         process_batch self r fs changes = ([], Inr r)"
proof -
  from assms have "changes_to_process self r fs changes = {}"
    by (auto simp: changes_to_process_def)
  then show ?thesis by (simp add: process_batch_def Let_def)
qed

theorem lock_file_present_drops_batch_witness:
  "is_lock_file_present (\<lambda>p. p = PurePath ''/'' [''tmp'', ''proj'', ''LOCK''])
     (observer proj_processor) \<and>
   changes_to_process proj_processor [] (\<lambda>e p. p = PurePath ''/'' [''tmp'', ''proj'', ''LOCK''])
     {(modified, ''/tmp/proj/a.txt'')} = {} \<and>
   process_batch proj_processor [] (\<lambda>e p. p = PurePath ''/'' [''tmp'', ''proj'', ''LOCK''])
     {(modified, ''/tmp/proj/a.txt'')} = ([], Inr [])"
proof -
  have h: "\<forall>e \<in> {(modified, ''/tmp/proj/a.txt'')}.
      is_lock_file_present ((\<lambda>e p. p = PurePath ''/'' [''tmp'', ''proj'', ''LOCK'']) e)
        (observer proj_processor)"
    using proj_lock_present by simp
  show ?thesis
    using lock_file_present_drops_batch [OF h, of "[]"] proj_lock_present by simp
qed

text \<open>
  Claim C4. \<^verbatim>\<open>is_lock_file_present\<close> returns true exactly when a lock file name is
  configured (a string that is not empty) and the path of that name under at least one
  watched directory exists in the file system the call reads. With no lock file name
  configured it returns false, whatever the directories hold.
\<close>

theorem is_lock_file_present_iff:
  "(is_lock_file_present fs self \<longleftrightarrow>
      (\<exists>name. processing_lock_file (config self) = Some name \<and> name \<noteq> [] \<and>
         (\<exists>directory \<in> set (directories self). fs (truediv directory name)))) \<and>
   (processing_lock_file (config self) = None \<longrightarrow> \<not> is_lock_file_present fs self)"
  by (auto simp: is_lock_file_present_def any_py_map split: option.splits)

theorem is_lock_file_present_iff_witness:
  "is_lock_file_present (\<lambda>p. p = PurePath ''/'' [''tmp'', ''proj'', ''LOCK''])
     (observer proj_processor) \<and>
   \<not> is_lock_file_present (\<lambda>p. p = PurePath ''/'' [''tmp'', ''proj'', ''a.txt''])
     (observer proj_processor) \<and>
   \<not> is_lock_file_present (\<lambda>p. True)
     (FileSystemObserver_init
        (FileSystemObserverConfiguration_init (One (Str ''/tmp/proj'')) [] [] None))"
proof -
  have "is_lock_file_present (\<lambda>p. p = PurePath ''/'' [''tmp'', ''proj'', ''LOCK''])
     (observer proj_processor)"
    using is_lock_file_present_iff
      [of "\<lambda>p. p = PurePath ''/'' [''tmp'', ''proj'', ''LOCK'']" "observer proj_processor"]
    by (simp add: proj_lock_file proj_directories proj_lock_path)
  moreover have "\<not> is_lock_file_present (\<lambda>p. p = PurePath ''/'' [''tmp'', ''proj'', ''a.txt''])
     (observer proj_processor)"
    using is_lock_file_present_iff
      [of "\<lambda>p. p = PurePath ''/'' [''tmp'', ''proj'', ''a.txt'']" "observer proj_processor"]
    by (simp add: proj_lock_file proj_directories proj_lock_path)
  moreover have "\<not> is_lock_file_present (\<lambda>p. True)
     (FileSystemObserver_init
        (FileSystemObserverConfiguration_init (One (Str ''/tmp/proj'')) [] [] None))"
    using is_lock_file_present_iff
      [of "\<lambda>p. True" "FileSystemObserver_init
        (FileSystemObserverConfiguration_init (One (Str ''/tmp/proj'')) [] [] None)"]
    by (simp add: FileSystemObserver_init_def FileSystemObserverConfiguration_init_def)
  ultimately show ?thesis by simp
qed

text \<open>
  Claim C5. For every batch the handler is to be called exactly when the retained set is
  not empty (the events that pass the responder's predicate, are not the lock file's
  path and are tested while no lock file is present), and then with exactly that set.
  The comprehension compares the event's path with the configured name alone, as under
  claim C1. Here the processor watches \<^verbatim>\<open>/tmp/proj\<close> with the lock file name \<^verbatim>\<open>LOCK\<close>,
  no lock file is present, the responder accepts every path, and the one batch holds the
  lock file's event only: the retained set is empty, and the loop calls the handler once,
  with that event.
\<close>

theorem lock_file_event_alone_calls_handler:
  "retained proj_processor [] (\<lambda>e p. False) {(modified, ''/tmp/proj/LOCK'')} = {} \<and>
   process_changes proj_processor [] [(\<lambda>e p. False, {(modified, ''/tmp/proj/LOCK'')})]
     = ([{(modified, ''/tmp/proj/LOCK'')}], Inr [{(modified, ''/tmp/proj/LOCK'')}])"
proof -
  have a: "retained proj_processor [] (\<lambda>e p. False) {(modified, ''/tmp/proj/LOCK'')} = {}"
    by (auto simp: retained_def proj_lock_file_paths)
  have b: "changes_to_process proj_processor [] (\<lambda>e p. False) {(modified, ''/tmp/proj/LOCK'')}
       = {(modified, ''/tmp/proj/LOCK'')}"
    using proj_lock_absent
    by (auto simp: changes_to_process_def proj_lock_file proj_should_process)
  have c: "process_batch proj_processor [] (\<lambda>e p. False) {(modified, ''/tmp/proj/LOCK'')}
       = ([{(modified, ''/tmp/proj/LOCK'')}], Inr [{(modified, ''/tmp/proj/LOCK'')}])"
    using b by (simp add: process_batch_def Let_def proj_handle)
  show ?thesis
    using a c by simp
qed

section \<open>The configuration's directories\<close>

text \<open>
  Claim C8. A configuration built from one path or path string has a list of
  directories with exactly one element, that path; built from a sequence of paths it has
  exactly those paths, as many and in the given order. A string stands for the path it
  parses to, and a path object is one that \<^verbatim>\<open>pathlib\<close> can hold.
\<close>

theorem configuration_normalises_directories:
  assumes "wf_path_like d" and "list_all wf_path_like ds"
  shows "directories_to_observe (FileSystemObserverConfiguration_init (One d) incl excl lf)
           = [Path d] \<and>
         directories_to_observe (FileSystemObserverConfiguration_init (Several ds) incl excl lf)
           = map Path ds"
  using assms
  by (simp add: FileSystemObserverConfiguration_init_def Path_str_of list_all_iff)

theorem configuration_normalises_directories_witness:
  "directories_to_observe
     (FileSystemObserverConfiguration_init (One (Str ''/tmp/proj/'')) [] [] None)
     = [PurePath ''/'' [''tmp'', ''proj'']] \<and>
   directories_to_observe
     (FileSystemObserverConfiguration_init
        (Several [PathObj (PurePath ''/'' [''tmp'', ''proj'']), Str ''logs'']) [] [] None)
     = [PurePath ''/'' [''tmp'', ''proj''], PurePath [] [''logs'']]"
proof -
  have a: "wf_path_like (Str ''/tmp/proj/'')"
    by (simp add: wf_path_like_def)
  have b: "list_all wf_path_like [PathObj (PurePath ''/'' [''tmp'', ''proj'']), Str ''logs'']"
    by (simp add: wf_path_like_def wf_tmp_proj)
  show ?thesis
    using configuration_normalises_directories [OF a b, of "[]" "[]" None]
    by (simp add: parse_path_def splitroot_def)
qed

section \<open>The registry's lookups\<close>

text \<open>
  Claim C3. Registering an object and then asking for it gives the object back. The
  identifier drawn for the call is new: it is not among the aliases. Without an alias
  (\<^verbatim>\<open>None\<close> or the empty string), \<^verbatim>\<open>get_data\<close> on the returned identifier yields the
  object, and the aliases are as they were. With an alias, \<^verbatim>\<open>get_data\<close> on the returned
  identifier and on the alias both yield the object.
\<close>

theorem register_data_then_get_data:
  assumes "aliases cls uuid4 = None"
    and "register_data uuid4 cls d alias = (data_id, cls')"
  shows "data_id = uuid4 \<and>
         get_data cls' (IdStr data_id) = (Inr d, cls') \<and>
         get_data cls' (UUID data_id) = (Inr d, cls') \<and>
         (case alias of
            None \<Rightarrow> aliases cls' = aliases cls
          | Some a \<Rightarrow> if a = [] then aliases cls' = aliases cls
                      else get_data cls' (IdStr a) = (Inr d, cls'))"
  using assms
  by (auto simp: register_data_def get_data_def Let_def split: option.splits if_splits)

theorem register_data_then_get_data_witness:
  "get_data \<lparr> data = [''id-1'' \<mapsto> 7], aliases = [''Widget'' \<mapsto> ''id-1''] \<rparr> (IdStr ''id-1'')
     = (Inr (7::nat), \<lparr> data = [''id-1'' \<mapsto> 7], aliases = [''Widget'' \<mapsto> ''id-1''] \<rparr>) \<and>
   get_data \<lparr> data = [''id-1'' \<mapsto> 7], aliases = [''Widget'' \<mapsto> ''id-1''] \<rparr> (IdStr ''Widget'')
     = (Inr (7::nat), \<lparr> data = [''id-1'' \<mapsto> 7], aliases = [''Widget'' \<mapsto> ''id-1''] \<rparr>) \<and>
   get_data \<lparr> data = [''id-1'' \<mapsto> 7], aliases = Map.empty \<rparr> (IdStr ''id-1'')
     = (Inr (7::nat), \<lparr> data = [''id-1'' \<mapsto> 7], aliases = Map.empty \<rparr>)"
proof -
  have h: "aliases empty_registry ''id-1'' = None"
    by (simp add: empty_registry_def)
  show ?thesis
    using register_data_then_get_data [OF h one_widget]
      register_data_then_get_data [OF h one_plain]
    by (simp add: empty_registry_def)
qed

text \<open>
  Claim C6. For a string that is neither a key of the stored data nor an alias,
  \<^verbatim>\<open>get_data\<close> raises \<^verbatim>\<open>KeyError\<close>, and the registry is as it was.
\<close>

theorem get_data_unknown_raises_KeyError:
  assumes "data cls (str_identifier i) = None" and "aliases cls (str_identifier i) = None"
  shows "get_data cls i = (Inl (KeyError (str_identifier i)), cls)"
  using assms by (simp add: get_data_def)

theorem get_data_unknown_raises_KeyError_witness:
  "get_data \<lparr> data = [''id-1'' \<mapsto> 7::nat], aliases = [''Widget'' \<mapsto> ''id-1''] \<rparr>
       (IdStr ''Gadget'')
     = (Inl (KeyError ''Gadget''),
        \<lparr> data = [''id-1'' \<mapsto> 7], aliases = [''Widget'' \<mapsto> ''id-1''] \<rparr>)"
  using get_data_unknown_raises_KeyError
    [of "\<lparr> data = [''id-1'' \<mapsto> 7::nat], aliases = [''Widget'' \<mapsto> ''id-1''] \<rparr>"
        "IdStr ''Gadget''"]
  by simp

text \<open>
  Claim C7. Two calls of \<^verbatim>\<open>register_data\<close> in a row with the same alias: the second
  replaces the alias's entry without complaint. Afterwards \<^verbatim>\<open>get_data\<close> on the alias
  yields the second object, and on the identifier the first call returned it still yields
  the first. The two identifiers drawn differ, and the first is new: it is not among the
  aliases and is not the alias itself.
\<close>

theorem register_data_same_alias_twice:
  assumes "a \<noteq> []" and "id1 \<noteq> id2" and "id1 \<noteq> a" and "aliases cls id1 = None"
    and "register_data id1 cls x (Some a) = (first_id, cls1)"
    and "register_data id2 cls1 y (Some a) = (second_id, cls2)"
  shows "aliases cls1 a = Some first_id \<and>
         aliases cls2 a = Some second_id \<and>
         get_data cls2 (IdStr a) = (Inr y, cls2) \<and>
         get_data cls2 (IdStr first_id) = (Inr x, cls2)"
  using assms
  by (auto simp: register_data_def get_data_def Let_def)

theorem register_data_same_alias_twice_witness:
  "get_data \<lparr> data = [''id-1'' \<mapsto> 7, ''id-2'' \<mapsto> 8], aliases = [''Widget'' \<mapsto> ''id-2''] \<rparr>
       (IdStr ''Widget'')
     = (Inr (8::nat),
        \<lparr> data = [''id-1'' \<mapsto> 7, ''id-2'' \<mapsto> 8], aliases = [''Widget'' \<mapsto> ''id-2''] \<rparr>) \<and>
   get_data \<lparr> data = [''id-1'' \<mapsto> 7, ''id-2'' \<mapsto> 8], aliases = [''Widget'' \<mapsto> ''id-2''] \<rparr>
       (IdStr ''id-1'')
     = (Inr (7::nat),
        \<lparr> data = [''id-1'' \<mapsto> 7, ''id-2'' \<mapsto> 8], aliases = [''Widget'' \<mapsto> ''id-2''] \<rparr>)"
proof -
  have h: "''Widget'' \<noteq> []" "''id-1'' \<noteq> ''id-2''" "''id-1'' \<noteq> ''Widget''"
    "aliases empty_registry ''id-1'' = None"
    by (simp_all add: empty_registry_def)
  show ?thesis
    using register_data_same_alias_twice [OF h one_widget two_widgets]
    by simp
qed

text \<open>
  Claim C10. In \<^verbatim>\<open>get_data\<close> the alias comes first: for a string that is an alias, the
  call returns the object stored under the identifier the alias maps to, also when the
  same string is a key of the stored data with another object under it.
\<close>

theorem get_data_alias_takes_precedence:
  assumes "aliases cls s = Some i" and "data cls i = Some d"
  shows "get_data cls (IdStr s) = (Inr d, cls)"
  using assms by (simp add: get_data_def)

theorem get_data_alias_takes_precedence_witness:
  "register_data ''id-2'' (snd (register_data ''id-1'' empty_registry 7 None)) 8 (Some ''id-1'')
     = (''id-2'', \<lparr> data = [''id-1'' \<mapsto> 7, ''id-2'' \<mapsto> 8],
                    aliases = [''id-1'' \<mapsto> ''id-2''] \<rparr>) \<and>
   data \<lparr> data = [''id-1'' \<mapsto> 7, ''id-2'' \<mapsto> 8], aliases = [''id-1'' \<mapsto> ''id-2''] \<rparr> ''id-1''
     = Some (7::nat) \<and>
   get_data \<lparr> data = [''id-1'' \<mapsto> 7, ''id-2'' \<mapsto> 8], aliases = [''id-1'' \<mapsto> ''id-2''] \<rparr>
       (IdStr ''id-1'')
     = (Inr (8::nat),
        \<lparr> data = [''id-1'' \<mapsto> 7, ''id-2'' \<mapsto> 8], aliases = [''id-1'' \<mapsto> ''id-2''] \<rparr>)"
  using get_data_alias_takes_precedence
    [of "\<lparr> data = [''id-1'' \<mapsto> 7::nat, ''id-2'' \<mapsto> 8], aliases = [''id-1'' \<mapsto> ''id-2''] \<rparr>"
        "''id-1''" "''id-2''" 8]
  by (simp add: one_plain alias_over_id)

section \<open>Errors of copying a file\<close>

text \<open>
  Claim C9. \<^verbatim>\<open>copy_file\<close> raises \<^verbatim>\<open>FileNotFoundError\<close> when the source does not exist;
  when the source exists, it raises \<^verbatim>\<open>FileExistsError\<close> if the destination exists and
  \<^verbatim>\<open>overwrite\<close> is false; otherwise it makes the destination's directory and copies, each
  once. Whatever is raised inside reaches the caller as it is, after one line in the error
  log, and the file system is as the failing step left it.
\<close>

theorem copy_file_raises_or_copies:
  "(\<not> path_exists os w (Path source_path) \<longrightarrow>
      fst (copy_file os w source_path destination_path overwrite)
        = Some (FileNotFoundError
                  (''Source file does not exist: '' @ str_path (Path source_path))) \<and>
      fst (snd (copy_file os w source_path destination_path overwrite)) = w) \<and>
   (path_exists os w (Path source_path) \<and> path_exists os w (Path destination_path)
      \<and> \<not> overwrite \<longrightarrow>
      fst (copy_file os w source_path destination_path overwrite)
        = Some (FileExistsError
                  (''Destination file already exists: '' @ str_path (Path destination_path))) \<and>
      fst (snd (copy_file os w source_path destination_path overwrite)) = w) \<and>
   (path_exists os w (Path source_path)
      \<and> (overwrite \<or> \<not> path_exists os w (Path destination_path)) \<longrightarrow>
      (fst (copy_file os w source_path destination_path overwrite),
       fst (snd (copy_file os w source_path destination_path overwrite)))
        = (case mkdir_parents os w (parent (Path destination_path)) of
             (Some e, w') \<Rightarrow> (Some e, w')
           | (None, w') \<Rightarrow> shutil_copy2 os w' (Path source_path) (Path destination_path))) \<and>
   fst (copy_file os w source_path destination_path overwrite)
     = fst (copy_file_try os w (Path source_path) (Path destination_path) overwrite) \<and>
   length (snd (snd (copy_file os w source_path destination_path overwrite)))
     = (if fst (copy_file os w source_path destination_path overwrite) = None then 0 else 1)"
  by (auto simp: copy_file_def copy_file_try_def Let_def split: prod.splits option.splits)

theorem copy_file_raises_or_copies_witness:
  "fst (copy_file sample_os [PurePath ''/'' [''a''] \<mapsto> ''hello''] (Str ''/c'') (Str ''/dir/b'') False)
     = Some (FileNotFoundError ''Source file does not exist: /c'') \<and>
   fst (copy_file sample_os [PurePath ''/'' [''a''] \<mapsto> ''hello''] (Str ''/a'') (Str ''/a'') False)
     = Some (FileExistsError ''Destination file already exists: /a'') \<and>
   fst (copy_file sample_os [PurePath ''/'' [''a''] \<mapsto> ''hello''] (Str ''/a'') (Str ''/a/b'') False)
     = Some (FileExistsError ''File exists'') \<and>
   (fst (copy_file sample_os [PurePath ''/'' [''a''] \<mapsto> ''hello''] (Str ''/a'') (Str ''/dir/b'') False),
    fst (snd (copy_file sample_os [PurePath ''/'' [''a''] \<mapsto> ''hello''] (Str ''/a'') (Str ''/dir/b'') False)))
     = (None, [PurePath ''/'' [''a''] \<mapsto> ''hello'', PurePath ''/'' [''dir'', ''b''] \<mapsto> ''hello''])"
  using copy_file_raises_or_copies
      [of sample_os "[PurePath ''/'' [''a''] \<mapsto> ''hello'']" "Str ''/c''" "Str ''/dir/b''" False]
    copy_file_raises_or_copies
      [of sample_os "[PurePath ''/'' [''a''] \<mapsto> ''hello'']" "Str ''/a''" "Str ''/a''" False]
    copy_file_raises_or_copies
      [of sample_os "[PurePath ''/'' [''a''] \<mapsto> ''hello'']" "Str ''/a''" "Str ''/a/b''" False]
    copy_file_raises_or_copies
      [of sample_os "[PurePath ''/'' [''a''] \<mapsto> ''hello'']" "Str ''/a''" "Str ''/dir/b''" False]
  by (simp add: sample_os_def sample_paths str_path_def parent_def)

end
